theory Spec2Isabelle
  imports Main "HOL-Library.Sublist"
begin

section \<open>Strings\<close>

text \<open>
  Plan identifiers, session ids and dates are strings. A string is the list of its
  UTF-8 bytes. \<open>toLowerCase\<close> maps the letters A to Z to a to z and keeps every
  other byte; the resolver only looks for ASCII patterns in the lowered string.
\<close>

definition lowerChar :: "char \<Rightarrow> char" where
  "lowerChar c =
     (case map_of (zip ''ABCDEFGHIJKLMNOPQRSTUVWXYZ'' ''abcdefghijklmnopqrstuvwxyz'') c of
        Some l \<Rightarrow> l
      | None \<Rightarrow> c)"

definition toLowerCase :: "string \<Rightarrow> string" where
  "toLowerCase s = map lowerChar s"

text \<open>\<open>startsAt s p\<close>: the string \<open>s\<close> begins with \<open>p\<close>.\<close>

fun startsAt :: "string \<Rightarrow> string \<Rightarrow> bool" where
  "startsAt s [] = True"
| "startsAt [] (p # ps) = False"
| "startsAt (c # cs) (p # ps) = (c = p \<and> startsAt cs ps)"

text \<open>\<open>str_includes s p\<close> is \<open>s.includes(p)\<close>: \<open>p\<close> occurs in \<open>s\<close> as a substring.\<close>

fun str_includes :: "string \<Rightarrow> string \<Rightarrow> bool" where
  "str_includes [] p = (p = [])"
| "str_includes (c # cs) p = (startsAt (c # cs) p \<or> str_includes cs p)"

section \<open>Plan resolver (memberstack.ts)\<close>

definition PORTFOLIO_ID :: string where
  "PORTFOLIO_ID = ''pln_portfolio-builder-fb6b0fzp''"

definition ADVANCED_ID :: string where
  "ADVANCED_ID = ''pln_advanced-ni690fz3''"

definition ESSENTIALS_ID :: string where
  "ESSENTIALS_ID = ''pln_essentials-vb1k04zy''"

definition BASIC_ID :: string where
  "BASIC_ID = ''pln_basic--n5180oor''"

text \<open>The rules of \<open>getBestPlanId\<close>, as pairs (pattern, mappedId), highest tier first.\<close>

definition topTier :: "(string \<times> string) list" where
  "topTier =
     [(''portfolio'', PORTFOLIO_ID),
      (''office-team'', PORTFOLIO_ID),
      (''team'', PORTFOLIO_ID),
      (''premium'', PORTFOLIO_ID),
      (''unlimited'', PORTFOLIO_ID)]"

definition lowerTiers :: "(string \<times> string) list" where
  "lowerTiers =
     [(''advanced'', ADVANCED_ID),
      (''pro'', ADVANCED_ID),
      (''essentials'', ESSENTIALS_ID),
      (''starter'', ESSENTIALS_ID),
      (''basic'', BASIC_ID),
      (''free'', BASIC_ID)]"

definition hierarchy :: "(string \<times> string) list" where
  "hierarchy = topTier @ lowerTiers"

text \<open>
  The test of the arrow function given to \<open>find\<close>:
  \<open>id.toLowerCase().includes(pattern)\<close>.
\<close>

definition matchesPattern :: "string \<Rightarrow> string \<Rightarrow> bool" where
  "matchesPattern pattern planId = str_includes (toLowerCase planId) pattern"

text \<open>
  The \<open>for\<close> loop over the rules and the fallback after it. \<open>find\<close> gives the first
  matching plan string or \<open>undefined\<close>; the \<open>if (matchingPlan)\<close> is a truthiness test, so
  the empty string counts as no match. The fallback \<open>activePlanIds[0] || null\<close> is
  \<open>null\<close> for the empty list and for an empty first string.
\<close>

fun resolveFrom :: "(string \<times> string) list \<Rightarrow> string list \<Rightarrow> string option" where
  "resolveFrom [] activePlanIds =
     (case activePlanIds of
        [] \<Rightarrow> None
      | first # _ \<Rightarrow> if first = [] then None else Some first)"
| "resolveFrom ((pattern, mappedId) # rules) activePlanIds =
     (case find (matchesPattern pattern) activePlanIds of
        Some matchingPlan \<Rightarrow>
          if matchingPlan \<noteq> [] then Some mappedId else resolveFrom rules activePlanIds
      | None \<Rightarrow> resolveFrom rules activePlanIds)"

definition getBestPlanId :: "string list \<Rightarrow> string option" where
  "getBestPlanId activePlanIds = resolveFrom hierarchy activePlanIds"

text \<open>Some plan string matches some pattern of the given rules; no plan string matches any.\<close>

definition someMatch :: "(string \<times> string) list \<Rightarrow> string list \<Rightarrow> bool" where
  "someMatch rules activePlanIds =
     list_ex (\<lambda>planId. list_ex (\<lambda>rule. matchesPattern (fst rule) planId) rules) activePlanIds"

definition noMatch :: "(string \<times> string) list \<Rightarrow> string list \<Rightarrow> bool" where
  "noMatch rules activePlanIds = (\<not> someMatch rules activePlanIds)"

section \<open>Session manager (session.ts)\<close>

record User =
  user_id :: string
  user_email :: string
  user_firstName :: string
  user_lastName :: string
  user_activePlans :: "string list"
  user_bestPlanId :: "string option"
  user_memberstackId :: string

text \<open>Dates are milliseconds since the epoch, as \<open>Date\<close> compares them.\<close>

record UserSession =
  sid :: string
  userEmail :: string
  memberstackId :: string
  firstName :: string
  lastName :: string
  activePlans :: "string list"
  bestPlanId :: "string option"
  createdAt :: int
  lastAccessed :: int
  expiresAt :: int
  isActive :: bool

definition SESSION_DURATION_MS :: int where
  "SESSION_DURATION_MS = 24 * 60 * 60 * 1000"

text \<open>
  What a handler can touch: the session store (a map from session id to record, which
  is what the in-process store is and what the remote store is used as), the value of
  the \<open>mib_session\<close> cookie that \<open>cookies()\<close> shows, and the log of the calls made to
  the store, to the cookie store and to the upstream backend, in order. Console output
  is not modelled. The three store functions below are the fulfilled calls, which is
  all the in-process map has; a call to the remote store may also reject, and
  \<open>destroySession\<close> below, whose property is about errors, takes the outcomes of its
  calls as an argument.
\<close>

datatype effect =
    StoreSet string
  | StoreGet string
  | StoreDelete string
  | CookieSet string
  | CookieDelete
  | FetchUserOrders string

record world =
  store :: "string \<rightharpoonup> UserSession"
  cookie :: "string option"
  effects :: "effect list"

definition sessionStore_set :: "string \<Rightarrow> UserSession \<Rightarrow> world \<Rightarrow> world" where
  "sessionStore_set sessionId session w =
     w\<lparr>store := (store w)(sessionId \<mapsto> session), effects := effects w @ [StoreSet sessionId]\<rparr>"

definition sessionStore_get :: "string \<Rightarrow> world \<Rightarrow> UserSession option \<times> world" where
  "sessionStore_get sessionId w =
     (store w sessionId, w\<lparr>effects := effects w @ [StoreGet sessionId]\<rparr>)"

definition sessionStore_delete :: "string \<Rightarrow> world \<Rightarrow> world" where
  "sessionStore_delete sessionId w =
     w\<lparr>store := (store w)(sessionId := None), effects := effects w @ [StoreDelete sessionId]\<rparr>"

definition cookieStore_set :: "string \<Rightarrow> world \<Rightarrow> world" where
  "cookieStore_set v w = w\<lparr>cookie := Some v, effects := effects w @ [CookieSet v]\<rparr>"

definition cookieStore_delete :: "world \<Rightarrow> world" where
  "cookieStore_delete w = w\<lparr>cookie := None, effects := effects w @ [CookieDelete]\<rparr>"

text \<open>
  \<open>createSession\<close>. The fresh id that \<open>uuidv4()\<close> draws and the clock reading of
  \<open>new Date()\<close> are arguments. \<open>if (existingSessionId)\<close> is a truthiness test: an absent
  cookie and an empty cookie value both skip the delete.
\<close>

definition createSession :: "User \<Rightarrow> string \<Rightarrow> int \<Rightarrow> world \<Rightarrow> string \<times> world" where
  "createSession user uuid now w =
     (let existingSessionId = cookie w;
          w1 = (case existingSessionId of
                  None \<Rightarrow> w
                | Some existing \<Rightarrow> if existing = [] then w else sessionStore_delete existing w);
          sessionId = uuid;
          session = \<lparr>sid = sessionId,
                     userEmail = user_email user,
                     memberstackId = user_memberstackId user,
                     firstName = user_firstName user,
                     lastName = user_lastName user,
                     activePlans = user_activePlans user,
                     bestPlanId = user_bestPlanId user,
                     createdAt = now,
                     lastAccessed = now,
                     expiresAt = now + SESSION_DURATION_MS,
                     isActive = True\<rparr>;
          w2 = sessionStore_set sessionId session w1;
          w3 = cookieStore_set sessionId w2
      in (sessionId, w3))"

definition getSession :: "int \<Rightarrow> world \<Rightarrow> UserSession option \<times> world" where
  "getSession now w =
     (case cookie w of
        None \<Rightarrow> (None, w)
      | Some sessionId \<Rightarrow>
          if sessionId = [] then (None, w)
          else
            (case sessionStore_get sessionId w of
               (None, w1) \<Rightarrow> (None, cookieStore_delete w1)
             | (Some session, w1) \<Rightarrow>
                 if \<not> isActive session \<or> expiresAt session < now
                 then (None, cookieStore_delete (sessionStore_delete sessionId w1))
                 else
                   (let refreshed = session\<lparr>lastAccessed := now\<rparr>
                    in (Some refreshed, sessionStore_set sessionId refreshed w1))))"

definition getCurrentUser :: "int \<Rightarrow> world \<Rightarrow> User option \<times> world" where
  "getCurrentUser now w =
     (case getSession now w of
        (None, w1) \<Rightarrow> (None, w1)
      | (Some session, w1) \<Rightarrow>
          (Some \<lparr>user_id = sid session,
                  user_email = userEmail session,
                  user_firstName = firstName session,
                  user_lastName = lastName session,
                  user_activePlans = activePlans session,
                  user_bestPlanId = bestPlanId session,
                  user_memberstackId = memberstackId session\<rparr>, w1))"






definition isAuthenticated :: "int \<Rightarrow> world \<Rightarrow> bool \<times> world" where
  "isAuthenticated now w = (case getSession now w of (session, w1) \<Rightarrow> (session \<noteq> None, w1))"

text \<open>The validity of a record at a clock reading, as \<open>getSession\<close> tests it.\<close>

definition validAt :: "int \<Rightarrow> UserSession \<Rightarrow> bool" where
  "validAt now session = (isActive session \<and> now \<le> expiresAt session)"

section \<open>Plan catalog (types.ts)\<close>

record Plan =
  plan_id :: string
  plan_name :: string
  plan_tier :: int
  suburbReports :: int
  propertyReports :: int
  plan_features :: "string list"

definition freePlan :: Plan where
  "freePlan =
     \<lparr>plan_id = ''pln_basic--n5180oor'', plan_name = ''Free'', plan_tier = 0,
      suburbReports = 0, propertyReports = 0,
      plan_features = [''5 AI property matches'', ''Basic suburb reports'', ''Limited filters'']\<rparr>"

definition essentialsPlan :: Plan where
  "essentialsPlan =
     \<lparr>plan_id = ''pln_essentials-vb1k04zy'', plan_name = ''Essentials'', plan_tier = 1,
      suburbReports = 2, propertyReports = 5,
      plan_features = [''Unlimited AI property matches'', ''2 suburb reports/month'',
                       ''5 property reports/month'']\<rparr>"

definition advancedPlan :: Plan where
  "advancedPlan =
     \<lparr>plan_id = ''pln_advanced-ni690fz3'', plan_name = ''Advanced'', plan_tier = 2,
      suburbReports = 20, propertyReports = 30,
      plan_features = [''Unlimited AI property matches'', ''20 suburb reports/month'',
                       ''30 property reports/month'', ''All filters + CSV export'']\<rparr>"

definition portfolioBuilderPlan :: Plan where
  "portfolioBuilderPlan =
     \<lparr>plan_id = ''pln_portfolio-builder-fb6b0fzp'', plan_name = ''Portfolio Builder'',
      plan_tier = 3, suburbReports = - 1, propertyReports = - 1,
      plan_features = [''Unlimited everything'', ''Priority support'', ''Custom reports'']\<rparr>"

definition PLANS :: "(string \<times> Plan) list" where
  "PLANS =
     [(''pln_basic--n5180oor'', freePlan),
      (''pln_essentials-vb1k04zy'', essentialsPlan),
      (''pln_advanced-ni690fz3'', advancedPlan),
      (''pln_portfolio-builder-fb6b0fzp'', portfolioBuilderPlan)]"

text \<open>
  \<open>PLANS\<close> is an object literal, so its prototype is \<open>Object.prototype\<close>, and the
  \<open>in\<close> operator of \<open>planId in PLANS\<close> also answers true for the property names it
  inherits from there.
\<close>

definition objectPrototypeKeys :: "string list" where
  "objectPrototypeKeys =
     [''constructor'', ''hasOwnProperty'', ''isPrototypeOf'', ''propertyIsEnumerable'',
      ''toLocaleString'', ''toString'', ''valueOf'', ''__proto__'',
      ''__defineGetter__'', ''__defineSetter__'', ''__lookupGetter__'', ''__lookupSetter__'']"

definition isCatalogKey :: "string \<Rightarrow> bool" where
  "isCatalogKey planId = (planId \<in> set (map fst PLANS))"

definition in_PLANS :: "string \<Rightarrow> bool" where
  "in_PLANS planId = (isCatalogKey planId \<or> planId \<in> set objectPrototypeKeys)"

text \<open>
  What \<open>PLANS[planId]\<close> gives once \<open>planId in PLANS\<close> holds: a catalog entry, or the
  member of \<open>Object.prototype\<close> of that name, which is no plan.
\<close>

datatype planDetails = CatalogEntry Plan | PrototypeMember string

definition PLANS_at :: "string \<Rightarrow> planDetails" where
  "PLANS_at planId =
     (case map_of PLANS planId of
        Some entry \<Rightarrow> CatalogEntry entry
      | None \<Rightarrow> PrototypeMember planId)"

text \<open>
  The properties the route reads from the plan details; \<open>None\<close> is \<open>undefined\<close>. The
  inherited members are functions, whose \<open>name\<close> is their own name (\<open>Object\<close> for
  \<open>constructor\<close>), and the prototype object under \<open>__proto__\<close>, which has no \<open>name\<close>;
  none of them has an \<open>id\<close>, a \<open>tier\<close> or a quota.
\<close>

fun details_id :: "planDetails \<Rightarrow> string option" where
  "details_id (CatalogEntry entry) = Some (plan_id entry)"
| "details_id (PrototypeMember k) = None"

fun details_name :: "planDetails \<Rightarrow> string option" where
  "details_name (CatalogEntry entry) = Some (plan_name entry)"
| "details_name (PrototypeMember k) =
     (if k = ''__proto__'' then None
      else if k = ''constructor'' then Some ''Object''
      else Some k)"

fun details_tier :: "planDetails \<Rightarrow> int option" where
  "details_tier (CatalogEntry entry) = Some (plan_tier entry)"
| "details_tier (PrototypeMember k) = None"

fun details_propertyReports :: "planDetails \<Rightarrow> int option" where
  "details_propertyReports (CatalogEntry entry) = Some (propertyReports entry)"
| "details_propertyReports (PrototypeMember k) = None"

fun details_suburbReports :: "planDetails \<Rightarrow> int option" where
  "details_suburbReports (CatalogEntry entry) = Some (suburbReports entry)"
| "details_suburbReports (PrototypeMember k) = None"

section \<open>Subscription route (subscription/route.ts)\<close>

text \<open>\<open>!planId\<close> holds for \<open>null\<close> and for the empty string.\<close>

definition getPlanDetails :: "string option \<Rightarrow> planDetails" where
  "getPlanDetails planId =
     (case planId of
        None \<Rightarrow> PLANS_at ''pln_basic--n5180oor''
      | Some p \<Rightarrow>
          if p = [] then PLANS_at ''pln_basic--n5180oor''
          else if in_PLANS p then PLANS_at p
          else if str_includes p ''portfolio'' then PLANS_at ''pln_portfolio-builder-fb6b0fzp''
          else if str_includes p ''advanced'' then PLANS_at ''pln_advanced-ni690fz3''
          else if str_includes p ''essentials'' then PLANS_at ''pln_essentials-vb1k04zy''
          else PLANS_at ''pln_basic--n5180oor'')"

definition getPlanDescription :: "string option \<Rightarrow> string" where
  "getPlanDescription planName =
     (if planName = Some ''Portfolio Builder''
        then ''Unlimited access to all Microburbs features and reports''
      else if planName = Some ''Advanced''
        then ''Extended access with 20 suburb reports and 30 property reports per month''
      else if planName = Some ''Essentials''
        then ''Basic access with 2 suburb reports and 5 property reports per month''
      else ''Basic access to Microburbs features'')"

record Order =
  report_category :: string
  date :: string

text \<open>\<open>split_dash s\<close> is \<open>s.split('-')\<close>.\<close>

fun split_dash :: "string \<Rightarrow> string list" where
  "split_dash [] = [[]]"
| "split_dash (c # cs) =
     (if c = CHR ''-'' then [] # split_dash cs
      else (case split_dash cs of
              [] \<Rightarrow> [[c]]
            | part # parts \<Rightarrow> (c # part) # parts))"

definition isDigit :: "char \<Rightarrow> bool" where
  "isDigit c = (c \<in> set ''0123456789'')"

definition digitValue :: "char \<Rightarrow> int" where
  "digitValue c =
     (case map_of (zip ''0123456789'' [0, 1, 2, 3, 4, 5, 6, 7, 8, 9]) c of
        Some v \<Rightarrow> v
      | None \<Rightarrow> 0)"

definition decimal :: "string \<Rightarrow> int" where
  "decimal s = foldl (\<lambda>acc c. 10 * acc + digitValue c) 0 s"

text \<open>
  \<open>Number\<close> on a piece of the date (\<open>StringToNumber\<close>). The result \<open>Some n\<close> says
  that the mathematical value of the numeric string is the integer \<open>n\<close>; the number of
  the code is then the double nearest to \<open>n\<close>, which is \<open>n\<close> itself below \<open>2^53\<close> in
  magnitude and is not below \<open>2^53\<close> otherwise, so that it equals a month number or a
  year exactly when \<open>n\<close> does. \<open>None\<close> says that the number is none of these integers
  (\<open>NaN\<close>, an infinity, a number with a fraction).

  The strings read here: white space around (tab, line feed, vertical tab, form feed,
  carriage return, space), nothing at all (0), a binary, octal or hexadecimal integer
  with its prefix, and a decimal literal with an optional sign, fraction and exponent
  whose value is an integer. Every other string is left to \<open>engine\<close>, the reading of
  the JavaScript engine, which the functions below take as an argument: among them are
  the strings that are no numbers, the values that are not integers (they may still
  round to one), \<open>Infinity\<close>, and white space outside ASCII.
\<close>

definition isSpace :: "char \<Rightarrow> bool" where
  "isSpace c = (c \<in> set [CHR 0x09, CHR 0x0A, CHR 0x0B, CHR 0x0C, CHR 0x0D, CHR 0x20])"

definition trimSpace :: "string \<Rightarrow> string" where
  "trimSpace s = rev (dropWhile isSpace (rev (dropWhile isSpace s)))"

definition digitOf :: "char \<Rightarrow> int option" where
  "digitOf c =
     map_of (zip ''0123456789abcdefABCDEF''
               [0, 1, 2, 3, 4, 5, 6, 7, 8, 9, 10, 11, 12, 13, 14, 15, 10, 11, 12, 13, 14, 15]) c"

text \<open>The value of a run of digits of the given base, read after the accumulator.\<close>

fun radixValue :: "int \<Rightarrow> int \<Rightarrow> string \<Rightarrow> int option" where
  "radixValue base acc [] = Some acc"
| "radixValue base acc (c # cs) =
     (case digitOf c of
        None \<Rightarrow> None
      | Some v \<Rightarrow> if v < base then radixValue base (base * acc + v) cs else None)"

text \<open>\<open>0x\<close>, \<open>0o\<close> or \<open>0b\<close> (in either case) and at least one digit of that base.\<close>

definition nonDecimal :: "string \<Rightarrow> int option" where
  "nonDecimal t =
     (case t of
        z # p # ds \<Rightarrow>
          if z = CHR ''0'' \<and> ds \<noteq> [] then
            (if p = CHR ''x'' \<or> p = CHR ''X'' then radixValue 16 0 ds
             else if p = CHR ''o'' \<or> p = CHR ''O'' then radixValue 8 0 ds
             else if p = CHR ''b'' \<or> p = CHR ''B'' then radixValue 2 0 ds
             else None)
          else None
      | _ \<Rightarrow> None)"

text \<open>A run of decimal digits that is not empty.\<close>

definition decimalDigits :: "string \<Rightarrow> int option" where
  "decimalDigits s = (if s \<noteq> [] \<and> list_all isDigit s then Some (decimal s) else None)"

text \<open>What follows the mantissa: nothing (exponent 0), or \<open>e\<close> or \<open>E\<close> and a signed integer.\<close>

definition exponentPart :: "string \<Rightarrow> int option" where
  "exponentPart r =
     (case r of
        [] \<Rightarrow> Some 0
      | c # cs \<Rightarrow>
          if c = CHR ''e'' \<or> c = CHR ''E'' then
            (case cs of
               [] \<Rightarrow> None
             | d # ds \<Rightarrow>
                 if d = CHR ''+'' then decimalDigits ds
                 else if d = CHR ''-'' then map_option uminus (decimalDigits ds)
                 else decimalDigits cs)
          else None)"

text \<open>
  An unsigned decimal literal: digits, an optional dot and digits, an optional exponent,
  with a digit before or after the dot. Its value is the number written by all the
  digits, times ten to the exponent less the number of the digits of the fraction;
  \<open>None\<close> when that is no integer or the string is no such literal.
\<close>

definition unsignedDecimal :: "string \<Rightarrow> int option" where
  "unsignedDecimal u =
     (let intDigits = takeWhile isDigit u;
          afterInt = dropWhile isDigit u;
          fracDigits = (case afterInt of
                          [] \<Rightarrow> []
                        | c # cs \<Rightarrow> if c = CHR ''.'' then takeWhile isDigit cs else []);
          afterFrac = (case afterInt of
                         [] \<Rightarrow> []
                       | c # cs \<Rightarrow> if c = CHR ''.'' then dropWhile isDigit cs else afterInt)
      in if intDigits = [] \<and> fracDigits = [] then None
         else
           (case exponentPart afterFrac of
              None \<Rightarrow> None
            | Some e \<Rightarrow>
                (let m = decimal (intDigits @ fracDigits);
                     k = e - int (length fracDigits)
                 in if 0 \<le> k then Some (m * 10 ^ nat k)
                    else if m mod 10 ^ nat (- k) = 0 then Some (m div 10 ^ nat (- k))
                    else None)))"

definition integerLiteral :: "string \<Rightarrow> int option" where
  "integerLiteral t =
     (case t of
        [] \<Rightarrow> Some 0
      | c # cs \<Rightarrow>
          (case nonDecimal t of
             Some n \<Rightarrow> Some n
           | None \<Rightarrow>
               if c = CHR ''+'' then unsignedDecimal cs
               else if c = CHR ''-'' then map_option uminus (unsignedDecimal cs)
               else unsignedDecimal t))"

definition Number :: "(string \<Rightarrow> int option) \<Rightarrow> string \<Rightarrow> int option" where
  "Number engine s =
     (case integerLiteral (trimSpace s) of
        Some n \<Rightarrow> Some n
      | None \<Rightarrow> engine s)"

text \<open>
  An element of the array after \<open>.map(Number)\<close>, as the destructuring reads it: \<open>None\<close>
  is \<open>NaN\<close> or, past the end, \<open>undefined\<close>. Both make the comparisons below false.
\<close>

fun element :: "int option list \<Rightarrow> nat \<Rightarrow> int option" where
  "element [] i = None"
| "element (x # xs) 0 = x"
| "element (x # xs) (Suc i) = element xs i"

text \<open>
  The test of the loop body: \<open>year === currentYear && month - 1 === currentMonth\<close>,
  with \<open>currentMonth\<close> the value of \<open>getMonth()\<close> (0 for January, up to 11) and
  \<open>currentYear\<close> that of \<open>getFullYear()\<close>.
\<close>

definition inCurrentMonth :: "(string \<Rightarrow> int option) \<Rightarrow> int \<Rightarrow> int \<Rightarrow> Order \<Rightarrow> bool" where
  "inCurrentMonth engine currentMonth currentYear order =
     (let parts = map (Number engine) (split_dash (date order));
          month = element parts 1;
          year = element parts 2
      in year = Some currentYear \<and>
         (case month of None \<Rightarrow> False | Some m \<Rightarrow> m - 1 = currentMonth))"

text \<open>The \<open>forEach\<close> over the orders, with the two counters as the accumulator.\<close>

fun countOrders ::
  "(string \<Rightarrow> int option) \<Rightarrow> int \<Rightarrow> int \<Rightarrow> Order list \<Rightarrow> int \<times> int \<Rightarrow> int \<times> int" where
  "countOrders engine currentMonth currentYear [] used = used"
| "countOrders engine currentMonth currentYear (order # orders)
     (propertyReportsUsed, suburbReportsUsed) =
     countOrders engine currentMonth currentYear orders
       (if inCurrentMonth engine currentMonth currentYear order then
          (if report_category order = ''Property''
             then (propertyReportsUsed + 1, suburbReportsUsed)
           else if report_category order = ''Suburb''
             then (propertyReportsUsed, suburbReportsUsed + 1)
           else (propertyReportsUsed, suburbReportsUsed))
        else (propertyReportsUsed, suburbReportsUsed))"

text \<open>
  What the call to the upstream backend comes to: the \<open>fetch\<close> (or reading its body)
  throws, the response is not \<open>ok\<close>, or it is \<open>ok\<close> with a list of orders.
\<close>

datatype fetchResult = FetchThrows | ResponseNotOk | ResponseOk "Order list"

definition fetch_userOrders :: "string \<Rightarrow> world \<Rightarrow> world" where
  "fetch_userOrders email w = w\<lparr>effects := effects w @ [FetchUserOrders email]\<rparr>"

text \<open>A number of the response: an integer or \<open>NaN\<close>.\<close>

datatype jsnum = Num int | NaN

text \<open>
  \<open>limit === -1 ? -1 : Math.max(0, limit - used)\<close>; with \<open>limit\<close> undefined the
  difference is \<open>NaN\<close> and so is the maximum.
\<close>

definition reportsLeft :: "int option \<Rightarrow> int \<Rightarrow> jsnum" where
  "reportsLeft limit used =
     (case limit of
        None \<Rightarrow> NaN
      | Some l \<Rightarrow> if l = - 1 then Num (- 1) else Num (max 0 (l - used)))"

text \<open>\<open>planDetails.tier >= n\<close>, false when the tier is undefined.\<close>

definition tierAtLeast :: "int option \<Rightarrow> int \<Rightarrow> bool" where
  "tierAtLeast tier n = (case tier of None \<Rightarrow> False | Some t \<Rightarrow> n \<le> t)"

record PlanInfo =
  info_id :: "string option"
  info_name :: "string option"
  info_tier :: "int option"
  description :: string

record Usage =
  propertyReportsUsed :: int
  propertyReportsLimit :: "int option"
  propertyReportsLeft :: jsnum
  suburbReportsUsed :: int
  suburbReportsLimit :: "int option"
  suburbReportsLeft :: jsnum

record Features =
  suburbFinder :: string
  propertyFinder :: string
  csvExport :: bool
  prioritySupport :: bool

record SubscriptionData =
  plan :: PlanInfo
  usage :: Usage
  features :: Features

text \<open>
  A response: an error with its status and message (\<open>success: false\<close>), or status 200
  with the subscription data (\<open>success: true\<close>).
\<close>

datatype response = ErrorResponse nat string | SubscriptionResponse SubscriptionData

definition usedCounts ::
  "(string \<Rightarrow> int option) \<Rightarrow> int \<Rightarrow> int \<Rightarrow> fetchResult \<Rightarrow> int \<times> int" where
  "usedCounts engine currentMonth currentYear fetched =
     (case fetched of
        ResponseOk orders \<Rightarrow> countOrders engine currentMonth currentYear orders (0, 0)
      | ResponseNotOk \<Rightarrow> (0, 0)
      | FetchThrows \<Rightarrow> (0, 0))"

definition subscriptionData :: "planDetails \<Rightarrow> int \<times> int \<Rightarrow> SubscriptionData" where
  "subscriptionData planDetails used =
     (let propertyReportsUsed = fst used;
          suburbReportsUsed = snd used;
          propertyReportsLimit = details_propertyReports planDetails;
          suburbReportsLimit = details_suburbReports planDetails;
          propertyReportsLeft = reportsLeft propertyReportsLimit propertyReportsUsed;
          suburbReportsLeft = reportsLeft suburbReportsLimit suburbReportsUsed;
          isUnlimited = tierAtLeast (details_tier planDetails) 3;
          hasAdvancedFeatures = tierAtLeast (details_tier planDetails) 2
      in \<lparr>plan = \<lparr>info_id = details_id planDetails,
                   info_name = details_name planDetails,
                   info_tier = details_tier planDetails,
                   description = getPlanDescription (details_name planDetails)\<rparr>,
          usage = \<lparr>propertyReportsUsed = propertyReportsUsed,
                    propertyReportsLimit = propertyReportsLimit,
                    propertyReportsLeft = propertyReportsLeft,
                    suburbReportsUsed = suburbReportsUsed,
                    suburbReportsLimit = suburbReportsLimit,
                    suburbReportsLeft = suburbReportsLeft\<rparr>,
          features = \<lparr>suburbFinder = (if isUnlimited \<or> hasAdvancedFeatures
                                          then ''unlimited'' else ''limited''),
                       propertyFinder = (if isUnlimited \<or> hasAdvancedFeatures
                                            then ''unlimited'' else ''limited''),
                       csvExport = hasAdvancedFeatures,
                       prioritySupport = isUnlimited\<rparr>\<rparr>)"

text \<open>
  The handler. \<open>engine\<close> is the engine's reading of numeric strings (see \<open>Number\<close>);
  \<open>now\<close> is the clock reading of the session check; \<open>currentMonth\<close> and
  \<open>currentYear\<close> are what the later \<open>new Date()\<close> gives for the usage count; \<open>fetched\<close>
  is the backend's answer. No step of the handler throws on these inputs, so the
  status 500 of its \<open>catch\<close> does not occur.
\<close>

definition GET ::
  "(string \<Rightarrow> int option) \<Rightarrow> int \<Rightarrow> int \<Rightarrow> int \<Rightarrow> fetchResult \<Rightarrow> world
     \<Rightarrow> response \<times> world" where
  "GET engine now currentMonth currentYear fetched w =
     (case getCurrentUser now w of
        (None, w1) \<Rightarrow> (ErrorResponse 401 ''Not authenticated'', w1)
      | (Some user, w1) \<Rightarrow>
          (let planDetails = getPlanDetails (user_bestPlanId user);
               w2 = fetch_userOrders (user_email user) w1;
               used = usedCounts engine currentMonth currentYear fetched
           in (SubscriptionResponse (subscriptionData planDetails used), w2)))"

section \<open>Dates in day-month-year form\<close>

text \<open>
  The reading of a date the specification speaks of: three runs of decimal digits, the
  day, the month and the year, with a dash between them. \<open>dayMonthYear\<close> gives the three
  numbers of such a string and \<open>None\<close> for any other string.
\<close>

definition digits :: "string \<Rightarrow> bool" where
  "digits s = (s \<noteq> [] \<and> list_all isDigit s)"

definition dayMonthYear :: "string \<Rightarrow> (int \<times> int \<times> int) option" where
  "dayMonthYear s =
     (case split_dash s of
        [d, m, y] \<Rightarrow>
          if digits d \<and> digits m \<and> digits y then Some (decimal d, decimal m, decimal y)
          else None
      | _ \<Rightarrow> None)"

definition isDayMonthYear :: "string \<Rightarrow> bool" where
  "isDayMonthYear s = (dayMonthYear s \<noteq> None)"

text \<open>
  An order is dated in the current calendar month when the month and the year of its
  date are those of now: month number \<open>currentMonth + 1\<close> (\<open>getMonth()\<close> counts from 0)
  of \<open>currentYear\<close>.
\<close>

definition datedInMonth :: "int \<Rightarrow> int \<Rightarrow> Order \<Rightarrow> bool" where
  "datedInMonth currentMonth currentYear order =
     (case dayMonthYear (date order) of
        None \<Rightarrow> False
      | Some (d, m, y) \<Rightarrow> m = currentMonth + 1 \<and> y = currentYear)"

definition ordersOf :: "string \<Rightarrow> int \<Rightarrow> int \<Rightarrow> Order list \<Rightarrow> Order list" where
  "ordersOf category currentMonth currentYear orders =
     filter (\<lambda>order. report_category order = category
                      \<and> datedInMonth currentMonth currentYear order) orders"

text \<open>The calls to the upstream backend among the logged effects.\<close>

fun isFetch :: "effect \<Rightarrow> bool" where
  "isFetch (FetchUserOrders email) = True"
| "isFetch e = False"

section \<open>Sample inputs\<close>

definition sampleSession :: "string \<Rightarrow> string option \<Rightarrow> int \<Rightarrow> UserSession" where
  "sampleSession sessionId planId expiry =
     \<lparr>sid = sessionId, userEmail = ''ann@example.com'', memberstackId = ''mem_1'',
      firstName = ''Ann'', lastName = ''Lee'',
      activePlans = (case planId of None \<Rightarrow> [] | Some p \<Rightarrow> [p]),
      bestPlanId = planId, createdAt = 0, lastAccessed = 0, expiresAt = expiry,
      isActive = True\<rparr>"

definition sampleWorld :: "string \<Rightarrow> string option \<Rightarrow> int \<Rightarrow> world" where
  "sampleWorld sessionId planId expiry =
     \<lparr>store = [sessionId \<mapsto> sampleSession sessionId planId expiry],
      cookie = Some sessionId, effects = []\<rparr>"

definition anonymousWorld :: world where
  "anonymousWorld = \<lparr>store = Map.empty, cookie = None, effects = []\<rparr>"

definition sampleUser :: User where
  "sampleUser =
     \<lparr>user_id = ''mem_1'', user_email = ''ann@example.com'', user_firstName = ''Ann'',
      user_lastName = ''Lee'', user_activePlans = [''pln_advanced-ni690fz3''],
      user_bestPlanId = Some ''pln_advanced-ni690fz3'', user_memberstackId = ''mem_1''\<rparr>"

definition sampleOrder :: "string \<Rightarrow> string \<Rightarrow> Order" where
  "sampleOrder category day = \<lparr>report_category = category, date = day\<rparr>"

text \<open>
  Now is February 2025 (\<open>getMonth()\<close> is 1). Of the four orders, the Property order of
  31 January 2025 and the Suburb order of 28 February 2024 are not counted.
\<close>

definition februaryOrders :: "Order list" where
  "februaryOrders =
     [sampleOrder ''Property'' ''31-01-2025'', sampleOrder ''Property'' ''01-02-2025'',
      sampleOrder ''Suburb'' ''28-02-2024'', sampleOrder ''Suburb'' ''15-02-2025'']"

section \<open>Properties of the plan resolver\<close>

lemma str_includes_sublist: "str_includes s p = sublist p s"
proof (induction s)
  case Nil
  show ?case by simp
next
  case (Cons c cs)
  have pre: "startsAt t p = prefix p t" for t
    by (induction t p rule: startsAt.induct) auto
  show ?case
  proof (cases p)
    case Nil
    then show ?thesis by simp
  next
    case (Cons q qs)
    with Cons.IH pre [of "c # cs"] show ?thesis
      by (simp add: sublist_Cons_right)
  qed
qed

lemma str_includes_nonempty: "str_includes s p \<Longrightarrow> p \<noteq> [] \<Longrightarrow> s \<noteq> []"
  by (cases s) auto

lemma matchesPattern_nonempty: "matchesPattern p planId \<Longrightarrow> p \<noteq> [] \<Longrightarrow> planId \<noteq> []"
  unfolding matchesPattern_def toLowerCase_def
  using str_includes_nonempty by fastforce

text \<open>One turn of the loop, for a rule whose pattern is not empty.\<close>

lemma resolveFrom_step:
  assumes "pattern \<noteq> []"
  shows "resolveFrom ((pattern, mappedId) # rules) ids =
           (if list_ex (matchesPattern pattern) ids then Some mappedId
            else resolveFrom rules ids)"
proof (cases "find (matchesPattern pattern) ids")
  case None
  then have "\<not> list_ex (matchesPattern pattern) ids"
    by (simp add: find_None_iff list_ex_iff)
  with None show ?thesis by simp
next
  case (Some m)
  then have m: "m \<in> set ids" "matchesPattern pattern m"
    by (auto simp: find_Some_iff)
  then have "m \<noteq> []" using assms matchesPattern_nonempty by blast
  moreover have "list_ex (matchesPattern pattern) ids"
    using m by (auto simp: list_ex_iff)
  ultimately show ?thesis using Some by simp
qed

lemma resolveFrom_same_id:
  assumes "\<forall>r \<in> set rules. fst r \<noteq> [] \<and> snd r = target"
    and "someMatch rules ids"
  shows "resolveFrom (rules @ rest) ids = Some target"
  using assms
proof (induction rules)
  case Nil
  then show ?case by (simp add: someMatch_def list_ex_iff)
next
  case (Cons r rules)
  obtain p m where r: "r = (p, m)" by (cases r)
  from Cons.prems(1) r have p: "p \<noteq> []" and m: "m = target" by auto
  show ?case
  proof (cases "list_ex (matchesPattern p) ids")
    case True
    with p m r show ?thesis by (simp add: resolveFrom_step del: resolveFrom.simps)
  next
    case False
    with Cons.prems(2) r have "someMatch rules ids"
      by (auto simp: someMatch_def list_ex_iff)
    with Cons.IH Cons.prems(1) have "resolveFrom (rules @ rest) ids = Some target" by simp
    with False p r show ?thesis by (simp add: resolveFrom_step del: resolveFrom.simps)
  qed
qed

lemma resolveFrom_noMatch:
  assumes "noMatch rules ids"
  shows "resolveFrom rules ids =
           (case ids of [] \<Rightarrow> None | first # _ \<Rightarrow> if first = [] then None else Some first)"
  using assms
proof (induction rules)
  case Nil
  show ?case by simp
next
  case (Cons r rules)
  obtain p m where r: "r = (p, m)" by (cases r)
  from Cons.prems r have none: "\<not> list_ex (matchesPattern p) ids" and rest: "noMatch rules ids"
    by (auto simp: noMatch_def someMatch_def list_ex_iff)
  from none have "find (matchesPattern p) ids = None"
    by (simp add: find_None_iff list_ex_iff)
  with Cons.IH [OF rest] r show ?case by simp
qed

lemma topTier_rules: "\<forall>r \<in> set topTier. fst r \<noteq> [] \<and> snd r = PORTFOLIO_ID"
  by (simp add: topTier_def)

text \<open>
  C1. Whenever some active plan string matches a top-tier pattern and some active plan
  string (the same or another) matches a lower-tier pattern, \<open>getBestPlanId\<close> returns
  the top-tier canonical id; the input \<open>["xyz-essentials-123", "xyz-portfolio-456"]\<close>
  resolves to \<open>pln_portfolio-builder-fb6b0fzp\<close>.
\<close>

theorem C1_top_tier_precedence:
  "(someMatch topTier ids \<and> someMatch lowerTiers ids
      \<longrightarrow> getBestPlanId ids = Some ''pln_portfolio-builder-fb6b0fzp'')
   \<and> getBestPlanId [''xyz-essentials-123'', ''xyz-portfolio-456'']
       = Some ''pln_portfolio-builder-fb6b0fzp''"
proof -
  have gen: "someMatch topTier xs \<Longrightarrow> getBestPlanId xs = Some PORTFOLIO_ID" for xs
    unfolding getBestPlanId_def hierarchy_def
    by (rule resolveFrom_same_id [OF topTier_rules])
  have "someMatch topTier [''xyz-essentials-123'', ''xyz-portfolio-456'']"
    by (simp add: someMatch_def topTier_def matchesPattern_def toLowerCase_def lowerChar_def)
  with gen show ?thesis by (auto simp: PORTFOLIO_ID_def)
qed

theorem C1_top_tier_precedence_witness:
  "someMatch topTier [''Team-Plan-7'', ''my-starter-plan'']
   \<and> someMatch lowerTiers [''Team-Plan-7'', ''my-starter-plan'']
   \<and> getBestPlanId [''Team-Plan-7'', ''my-starter-plan'']
       = Some ''pln_portfolio-builder-fb6b0fzp''"
proof -
  have t: "someMatch topTier [''Team-Plan-7'', ''my-starter-plan'']"
    by (simp add: someMatch_def topTier_def matchesPattern_def toLowerCase_def lowerChar_def)
  have l: "someMatch lowerTiers [''Team-Plan-7'', ''my-starter-plan'']"
    by (simp add: someMatch_def lowerTiers_def matchesPattern_def toLowerCase_def lowerChar_def)
  from t l C1_top_tier_precedence [of "[''Team-Plan-7'', ''my-starter-plan'']"]
  show ?thesis by simp
qed

text \<open>The definitions that evaluate a pattern test on a given string.\<close>

lemmas eval_strings = matchesPattern_def toLowerCase_def lowerChar_def

lemma hierarchy_noMatch_unrecognized: "noMatch hierarchy [''unrecognized-plan-id'']"
  by (simp add: noMatch_def someMatch_def hierarchy_def topTier_def lowerTiers_def eval_strings)

lemma PLANS_at_basic: "PLANS_at ''pln_basic--n5180oor'' = CatalogEntry freePlan"
  by (simp add: PLANS_at_def PLANS_def)

text \<open>
  C2 (as the code has it). \<open>getBestPlanId\<close> is a total function. When no pattern of
  the hierarchy occurs in any active plan string (after lower-casing), it returns the
  first string unchanged if that string is not empty, and \<open>null\<close> if the first string is
  empty (the fallback is \<open>activePlanIds[0] || null\<close>); for the empty list it returns
  \<open>null\<close>. \<open>getPlanDetails\<close> maps \<open>null\<close> to the free-tier catalog entry
  \<open>pln_basic--n5180oor\<close>.
\<close>

theorem C2_fallback:
  "(noMatch hierarchy (first # others) \<and> first \<noteq> []
      \<longrightarrow> getBestPlanId (first # others) = Some first)
   \<and> (noMatch hierarchy ([] # others) \<longrightarrow> getBestPlanId ([] # others) = None)
   \<and> getBestPlanId [] = None
   \<and> getPlanDetails None = CatalogEntry freePlan
   \<and> plan_id freePlan = ''pln_basic--n5180oor''"
proof -
  have a: "getBestPlanId (first # others) = Some first"
    if "noMatch hierarchy (first # others)" "first \<noteq> []"
    using resolveFrom_noMatch [OF that(1)] that(2) by (simp add: getBestPlanId_def)
  have b: "getBestPlanId ([] # others) = None" if "noMatch hierarchy ([] # others)"
    using resolveFrom_noMatch [OF that] by (simp add: getBestPlanId_def)
  have "noMatch hierarchy []" by (simp add: noMatch_def someMatch_def)
  then have c: "getBestPlanId [] = None"
    using resolveFrom_noMatch [of hierarchy "[]"] by (simp add: getBestPlanId_def)
  have d: "getPlanDetails None = CatalogEntry freePlan"
    by (simp add: getPlanDetails_def PLANS_at_basic)
  have e: "plan_id freePlan = ''pln_basic--n5180oor''" by (simp add: freePlan_def)
  from a b c d e show ?thesis by blast
qed

theorem C2_fallback_witness:
  "noMatch hierarchy [''unrecognized-plan-id'']
   \<and> getBestPlanId [''unrecognized-plan-id''] = Some ''unrecognized-plan-id''
   \<and> noMatch hierarchy ['''', ''x'']
   \<and> getBestPlanId ['''', ''x''] = None"
proof -
  have n: "noMatch hierarchy ['''', ''x'']"
    by (simp add: noMatch_def someMatch_def hierarchy_def topTier_def lowerTiers_def eval_strings)
  from hierarchy_noMatch_unrecognized n
    C2_fallback [of "''unrecognized-plan-id''" "[]"] C2_fallback [of "[]" "[''x'']"]
  show ?thesis by simp
qed

text \<open>
  That the first string is returned unchanged for every non-empty list without a match
  does not hold: for the list \<open>[""]\<close> the result is \<open>null\<close>.
\<close>

theorem C2_empty_first_string_counterexample:
  "[''''] \<noteq> [] \<and> noMatch hierarchy [''''] \<and> getBestPlanId [''''] \<noteq> Some (hd [''''])"
  by (simp add: noMatch_def someMatch_def hierarchy_def topTier_def lowerTiers_def eval_strings
      getBestPlanId_def)

section \<open>Properties of the session manager\<close>

lemmas store_ops = sessionStore_set_def sessionStore_get_def sessionStore_delete_def
  cookieStore_set_def cookieStore_delete_def

lemma createSession_with_cookie:
  assumes "cookie w = Some old" and "old \<noteq> []"
  shows "createSession user uuid now w =
           (uuid,
            w\<lparr>store := ((store w)(old := None))(uuid \<mapsto>
                  \<lparr>sid = uuid, userEmail = user_email user,
                   memberstackId = user_memberstackId user,
                   firstName = user_firstName user, lastName = user_lastName user,
                   activePlans = user_activePlans user, bestPlanId = user_bestPlanId user,
                   createdAt = now, lastAccessed = now,
                   expiresAt = now + SESSION_DURATION_MS, isActive = True\<rparr>),
              cookie := Some uuid,
              effects := effects w @ [StoreDelete old, StoreSet uuid, CookieSet uuid]\<rparr>)"
  using assms by (simp add: createSession_def store_ops Let_def)

text \<open>
  C3. When the request carries a session cookie, \<open>createSession\<close> deletes the record
  that cookie refers to and only then stores the new record and sets the cookie. Two
  calls in sequence, the second seeing the cookie the first has set, with fresh ids
  that are distinct and not empty: the record of the first id is gone, the record of the second id is stored and
  valid, and of the records of the store only those of other cookies remain beside it;
  when the store held at most the record of the initial cookie, exactly the one record
  of the second id is left.
\<close>

theorem C3_single_session_per_cookie:
  assumes "cookie w = Some old" and "old \<noteq> []"
    and "s1 \<noteq> []" and "s1 \<noteq> s2"
    and "createSession u1 s1 t1 w = (id1, w1)"
    and "createSession u2 s2 t2 w1 = (id2, w2)"
  shows "effects w1 = effects w @ [StoreDelete old, StoreSet s1, CookieSet s1]
       \<and> effects w2 = effects w1 @ [StoreDelete s1, StoreSet s2, CookieSet s2]
       \<and> (old \<noteq> s1 \<longrightarrow> store w1 old = None)
       \<and> store w2 s1 = None
       \<and> (\<exists>session. store w2 s2 = Some session \<and> sid session = s2 \<and> validAt t2 session)
       \<and> cookie w2 = Some s2
       \<and> dom (store w2) = insert s2 (dom (store w) - {old, s1})
       \<and> (dom (store w) \<subseteq> {old} \<longrightarrow> dom (store w2) = {s2})"
proof -
  from assms(5) createSession_with_cookie [OF assms(1,2), of u1 s1 t1]
  have w1: "w1 = w\<lparr>store := ((store w)(old := None))(s1 \<mapsto>
                  \<lparr>sid = s1, userEmail = user_email u1,
                   memberstackId = user_memberstackId u1,
                   firstName = user_firstName u1, lastName = user_lastName u1,
                   activePlans = user_activePlans u1, bestPlanId = user_bestPlanId u1,
                   createdAt = t1, lastAccessed = t1,
                   expiresAt = t1 + SESSION_DURATION_MS, isActive = True\<rparr>),
              cookie := Some s1,
              effects := effects w @ [StoreDelete old, StoreSet s1, CookieSet s1]\<rparr>"
    by auto
  then have c1: "cookie w1 = Some s1" by simp
  from assms(6) createSession_with_cookie [OF c1 assms(3), of u2 s2 t2]
  have w2: "w2 = w1\<lparr>store := ((store w1)(s1 := None))(s2 \<mapsto>
                  \<lparr>sid = s2, userEmail = user_email u2,
                   memberstackId = user_memberstackId u2,
                   firstName = user_firstName u2, lastName = user_lastName u2,
                   activePlans = user_activePlans u2, bestPlanId = user_bestPlanId u2,
                   createdAt = t2, lastAccessed = t2,
                   expiresAt = t2 + SESSION_DURATION_MS, isActive = True\<rparr>),
              cookie := Some s2,
              effects := effects w1 @ [StoreDelete s1, StoreSet s2, CookieSet s2]\<rparr>"
    by auto
  have e1: "effects w1 = effects w @ [StoreDelete old, StoreSet s1, CookieSet s1]"
    using w1 by simp
  have e2: "effects w2 = effects w1 @ [StoreDelete s1, StoreSet s2, CookieSet s2]"
    using w2 by simp
  have g0: "old \<noteq> s1 \<longrightarrow> store w1 old = None" using w1 by simp
  have g1: "store w2 s1 = None" using w2 assms(4) by simp
  have g2: "\<exists>session. store w2 s2 = Some session \<and> sid session = s2 \<and> validAt t2 session"
    using w2 by (simp add: validAt_def SESSION_DURATION_MS_def)
  have g3: "cookie w2 = Some s2" using w2 by simp
  have g4: "dom (store w2) = insert s2 (dom (store w) - {old, s1})"
    using w1 w2 by auto
  have g5: "dom (store w) \<subseteq> {old} \<longrightarrow> dom (store w2) = {s2}"
    using g4 by auto
  from e1 e2 g0 g1 g2 g3 g4 g5 show ?thesis by blast
qed

theorem C3_single_session_per_cookie_witness:
  "dom (store (snd (createSession sampleUser ''s2'' 2000
          (snd (createSession sampleUser ''s1'' 1000 (sampleWorld ''s0'' None 5000)))))) = {''s2''}
   \<and> store (snd (createSession sampleUser ''s2'' 2000
          (snd (createSession sampleUser ''s1'' 1000 (sampleWorld ''s0'' None 5000))))) ''s1'' = None
   \<and> effects (snd (createSession sampleUser ''s1'' 1000 (sampleWorld ''s0'' None 5000)))
       = [StoreDelete ''s0'', StoreSet ''s1'', CookieSet ''s1'']"
proof -
  have c: "cookie (sampleWorld ''s0'' None 5000) = Some ''s0''" by (simp add: sampleWorld_def)
  have d: "dom (store (sampleWorld ''s0'' None 5000)) \<subseteq> {''s0''}" by (simp add: sampleWorld_def)
  have ef: "effects (sampleWorld ''s0'' None 5000) = []" by (simp add: sampleWorld_def)
  have n0: "''s0'' \<noteq> []" and n1: "''s1'' \<noteq> []" and n12: "''s1'' \<noteq> ''s2''" by simp_all
  note t = C3_single_session_per_cookie [OF c n0 n1 n12 surjective_pairing surjective_pairing,
      of sampleUser 1000 sampleUser 2000]
  from t d have g1: "dom (store (snd (createSession sampleUser ''s2'' 2000
          (snd (createSession sampleUser ''s1'' 1000 (sampleWorld ''s0'' None 5000)))))) = {''s2''}"
    by blast
  from t have g2: "store (snd (createSession sampleUser ''s2'' 2000
          (snd (createSession sampleUser ''s1'' 1000 (sampleWorld ''s0'' None 5000))))) ''s1'' = None"
    by blast
  from t ef have g3: "effects (snd (createSession sampleUser ''s1'' 1000 (sampleWorld ''s0'' None 5000)))
       = [StoreDelete ''s0'', StoreSet ''s1'', CookieSet ''s1'']"
    by simp
  from g1 g2 g3 show ?thesis by blast
qed

lemma getSession_found:
  assumes "cookie w = Some sessionId" and "sessionId \<noteq> []"
    and "store w sessionId = Some session"
  shows "getSession now w =
           (if validAt now session
            then (Some (session\<lparr>lastAccessed := now\<rparr>),
                  w\<lparr>store := (store w)(sessionId \<mapsto> session\<lparr>lastAccessed := now\<rparr>),
                    effects := effects w @ [StoreGet sessionId, StoreSet sessionId]\<rparr>)
            else (None,
                  w\<lparr>store := (store w)(sessionId := None), cookie := None,
                    effects := effects w @ [StoreGet sessionId, StoreDelete sessionId,
                                            CookieDelete]\<rparr>))"
  using assms by (auto simp: getSession_def store_ops validAt_def Let_def)

lemma getSession_Some_iff:
  "fst (getSession now w) = Some r \<longleftrightarrow>
     (\<exists>sessionId session. cookie w = Some sessionId \<and> sessionId \<noteq> []
        \<and> store w sessionId = Some session \<and> validAt now session
        \<and> r = session\<lparr>lastAccessed := now\<rparr>)"
  by (auto simp: getSession_def store_ops validAt_def Let_def
      split: option.splits if_splits)

text \<open>
  C4 (as the code has it). For a cookie that refers to a stored record, \<open>getSession\<close>
  returns the record (with \<open>lastAccessed\<close> refreshed) if and only if the record is
  active and \<open>now \<le> expiresAt\<close>: the test of the code is \<open>expiresAt < now\<close>, so the
  record is still returned at the very instant of its expiry. Otherwise, and so whenever
  \<open>expiresAt\<close> is in the past, whatever the active flag, it deletes the record, clears
  the cookie and returns none.
\<close>

theorem C4_session_validity:
  assumes "cookie w = Some sessionId" and "sessionId \<noteq> []"
    and "store w sessionId = Some session"
  shows "(fst (getSession now w) \<noteq> None) = (isActive session \<and> now \<le> expiresAt session)
       \<and> (isActive session \<and> now \<le> expiresAt session \<longrightarrow>
            fst (getSession now w) = Some (session\<lparr>lastAccessed := now\<rparr>)
            \<and> store (snd (getSession now w)) sessionId = Some (session\<lparr>lastAccessed := now\<rparr>)
            \<and> cookie (snd (getSession now w)) = Some sessionId)
       \<and> (\<not> (isActive session \<and> now \<le> expiresAt session) \<longrightarrow>
            fst (getSession now w) = None
            \<and> store (snd (getSession now w)) sessionId = None
            \<and> cookie (snd (getSession now w)) = None
            \<and> effects (snd (getSession now w))
                = effects w @ [StoreGet sessionId, StoreDelete sessionId, CookieDelete])
       \<and> (expiresAt session < now \<longrightarrow> fst (getSession now w) = None)"
  using assms by (simp add: getSession_found validAt_def)

theorem C4_session_validity_witness:
  "fst (getSession 1000 (sampleWorld ''s1'' None 5000))
     = Some ((sampleSession ''s1'' None 5000)\<lparr>lastAccessed := 1000\<rparr>)
   \<and> fst (getSession 6000 (sampleWorld ''s1'' None 5000)) = None
   \<and> store (snd (getSession 6000 (sampleWorld ''s1'' None 5000))) ''s1'' = None
   \<and> cookie (snd (getSession 6000 (sampleWorld ''s1'' None 5000))) = None"
proof -
  have c: "cookie (sampleWorld ''s1'' None 5000) = Some ''s1''" by (simp add: sampleWorld_def)
  have n: "''s1'' \<noteq> []" by simp
  have s: "store (sampleWorld ''s1'' None 5000) ''s1'' = Some (sampleSession ''s1'' None 5000)"
    by (simp add: sampleWorld_def)
  have a: "isActive (sampleSession ''s1'' None 5000)"
    and e: "expiresAt (sampleSession ''s1'' None 5000) = 5000"
    by (simp_all add: sampleSession_def)
  from C4_session_validity [OF c n s, of 1000] C4_session_validity [OF c n s, of 6000] a e
  show ?thesis by simp
qed

text \<open>
  Validity is not \<open>now < expiresAt\<close>: at \<open>now = expiresAt\<close> that comparison is
  false, and yet the record is returned, kept in the store, and the cookie stays.
\<close>

theorem C4_expiry_instant_counterexample:
  "store (sampleWorld ''s1'' None 1000) ''s1'' = Some (sampleSession ''s1'' None 1000)
   \<and> cookie (sampleWorld ''s1'' None 1000) = Some ''s1''
   \<and> \<not> (1000 < expiresAt (sampleSession ''s1'' None 1000))
   \<and> fst (getSession 1000 (sampleWorld ''s1'' None 1000))
       = Some ((sampleSession ''s1'' None 1000)\<lparr>lastAccessed := 1000\<rparr>)
   \<and> store (snd (getSession 1000 (sampleWorld ''s1'' None 1000))) ''s1'' \<noteq> None
   \<and> cookie (snd (getSession 1000 (sampleWorld ''s1'' None 1000))) = Some ''s1''"
  by (simp add: getSession_def store_ops sampleWorld_def sampleSession_def Let_def)









section \<open>Properties of the subscription route\<close>

lemma countOrders_filter:
  "countOrders engine cm cy orders (p, s) =
     (p + int (length (filter (\<lambda>order. report_category order = ''Property''
                                  \<and> inCurrentMonth engine cm cy order) orders)),
      s + int (length (filter (\<lambda>order. report_category order = ''Suburb''
                                  \<and> inCurrentMonth engine cm cy order) orders)))"
  by (induction orders arbitrary: p s) auto

text \<open>\<open>Number\<close> reads a run of decimal digits as its value, whatever the engine.\<close>

lemma isDigit_chars:
  assumes "isDigit c"
  shows "\<not> isSpace c" and "c \<noteq> CHR ''+''" and "c \<noteq> CHR ''-''" and "c \<noteq> CHR ''.''"
    and "c \<noteq> CHR ''x''" and "c \<noteq> CHR ''X''" and "c \<noteq> CHR ''o''" and "c \<noteq> CHR ''O''"
    and "c \<noteq> CHR ''b''" and "c \<noteq> CHR ''B''"
  using assms by (auto simp: isDigit_def isSpace_def)

lemma trimSpace_digits:
  assumes "s \<noteq> []" and "list_all isDigit s"
  shows "trimSpace s = s"
proof -
  from assms have "isDigit (hd s)" and "isDigit (last s)"
    by (simp_all add: list_all_iff)
  then have h: "\<not> isSpace (hd s)" and l: "\<not> isSpace (hd (rev s))"
    by (simp_all add: isDigit_chars hd_rev)
  from h have a: "dropWhile isSpace s = s" by (simp add: dropWhile_eq_self_iff)
  from l have b: "dropWhile isSpace (rev s) = rev s" by (simp add: dropWhile_eq_self_iff)
  show ?thesis by (simp add: trimSpace_def a b)
qed

lemma nonDecimal_digits:
  assumes "list_all isDigit s"
  shows "nonDecimal s = None"
proof (cases s)
  case Nil
  then show ?thesis by (simp add: nonDecimal_def)
next
  case (Cons z r)
  show ?thesis
  proof (cases r)
    case Nil
    with Cons show ?thesis by (simp add: nonDecimal_def)
  next
    case (Cons p ds)
    with assms \<open>s = z # r\<close> have "isDigit p" by simp
    note isDigit_chars [OF this]
    with Cons \<open>s = z # r\<close> show ?thesis by (simp add: nonDecimal_def)
  qed
qed

lemma unsignedDecimal_digits:
  assumes "s \<noteq> []" and "list_all isDigit s"
  shows "unsignedDecimal s = Some (decimal s)"
proof -
  from assms(2) have t: "takeWhile isDigit s = s" and d: "dropWhile isDigit s = []"
    by (simp_all add: list_all_iff)
  show ?thesis using assms(1)
    by (simp add: unsignedDecimal_def t d exponentPart_def Let_def)
qed

lemma Number_digits:
  assumes "digits s"
  shows "Number engine s = Some (decimal s)"
proof -
  from assms have ne: "s \<noteq> []" and dg: "list_all isDigit s" by (simp_all add: digits_def)
  then obtain c cs where s: "s = c # cs" by (cases s) auto
  with dg have "isDigit c" by simp
  note c = isDigit_chars [OF this]
  have "integerLiteral s = unsignedDecimal s"
    using s c(2,3) nonDecimal_digits [OF dg] by (simp add: integerLiteral_def)
  then show ?thesis
    by (simp add: Number_def trimSpace_digits [OF ne dg] unsignedDecimal_digits [OF ne dg])
qed

text \<open>On a date in day-month-year form the test of the loop is the comparison of the
  month and the year with those of now.\<close>

lemma dayMonthYear_pieces:
  assumes "dayMonthYear s = Some (dd, mm, yy)"
  shows "\<exists>d m y. split_dash s = [d, m, y] \<and> digits d \<and> digits m \<and> digits y
           \<and> dd = decimal d \<and> mm = decimal m \<and> yy = decimal y"
  using assms by (auto simp: dayMonthYear_def split: list.splits if_splits)

lemma inCurrentMonth_dayMonthYear:
  assumes "isDayMonthYear (date order)"
  shows "inCurrentMonth engine cm cy order = datedInMonth cm cy order"
proof -
  from assms obtain dd mm yy where v: "dayMonthYear (date order) = Some (dd, mm, yy)"
    by (auto simp: isDayMonthYear_def)
  from dayMonthYear_pieces [OF v] obtain d m y where
    sp: "split_dash (date order) = [d, m, y]" and dg: "digits d" "digits m" "digits y"
    and eq: "dd = decimal d" "mm = decimal m" "yy = decimal y"
    by blast
  have "inCurrentMonth engine cm cy order = (decimal y = cy \<and> decimal m - 1 = cm)"
    by (simp add: inCurrentMonth_def sp Number_digits dg Let_def numeral_2_eq_2)
  moreover have "datedInMonth cm cy order = (decimal m = cm + 1 \<and> decimal y = cy)"
    by (simp add: datedInMonth_def v eq)
  ultimately show ?thesis by auto
qed

lemma usedCounts_filter:
  "usedCounts engine cm cy (ResponseOk orders) =
     (int (length (filter (\<lambda>order. report_category order = ''Property''
                                  \<and> inCurrentMonth engine cm cy order) orders)),
      int (length (filter (\<lambda>order. report_category order = ''Suburb''
                                  \<and> inCurrentMonth engine cm cy order) orders)))"
  by (simp add: usedCounts_def countOrders_filter)

lemma usedCounts_ordersOf:
  assumes "list_all (\<lambda>order. isDayMonthYear (date order)) orders"
  shows "usedCounts engine cm cy (ResponseOk orders) =
           (int (length (ordersOf ''Property'' cm cy orders)),
            int (length (ordersOf ''Suburb'' cm cy orders)))"
proof -
  have "filter (\<lambda>order. report_category order = c \<and> inCurrentMonth engine cm cy order) orders
        = ordersOf c cm cy orders" for c
    unfolding ordersOf_def using assms
    by (intro filter_cong) (auto simp: list_all_iff inCurrentMonth_dayMonthYear)
  then show ?thesis by (simp add: usedCounts_def countOrders_filter)
qed

text \<open>\<open>dayMonthYear\<close> reads the three numbers of a date written with two dashes.\<close>

lemma isDigit_dash: "\<not> isDigit (CHR ''-'')"
  by (simp add: isDigit_def)

lemma isDigit_not_dash: "list_all isDigit s \<Longrightarrow> CHR ''-'' \<notin> set s"
  using isDigit_dash by (auto simp: list_all_iff)

lemma split_dash_plain: "CHR ''-'' \<notin> set s \<Longrightarrow> split_dash s = [s]"
proof (induction s)
  case Nil
  show ?case by simp
next
  case (Cons c cs)
  then have "c \<noteq> CHR ''-''" and "split_dash cs = [cs]" by auto
  then show ?case by simp
qed

lemma split_dash_append:
  "CHR ''-'' \<notin> set a \<Longrightarrow> split_dash (a @ CHR ''-'' # rest) = a # split_dash rest"
proof (induction a)
  case Nil
  show ?case by simp
next
  case (Cons c cs)
  then have "c \<noteq> CHR ''-''" and "split_dash (cs @ CHR ''-'' # rest) = cs # split_dash rest"
    by auto
  then show ?case by simp
qed

lemma dayMonthYear_parts:
  assumes "digits d" and "digits m" and "digits y"
  shows "dayMonthYear (d @ ''-'' @ m @ ''-'' @ y) = Some (decimal d, decimal m, decimal y)"
proof -
  from assms have nd: "CHR ''-'' \<notin> set d" "CHR ''-'' \<notin> set m" "CHR ''-'' \<notin> set y"
    by (simp_all add: digits_def isDigit_not_dash)
  then have "split_dash (d @ ''-'' @ m @ ''-'' @ y) = [d, m, y]"
    by (simp add: split_dash_append split_dash_plain)
  with assms show ?thesis by (simp add: dayMonthYear_def)
qed

lemma GET_authenticated:
  assumes "getCurrentUser now w = (Some user, w1)"
  shows "GET engine now cm cy fetched w =
           (SubscriptionResponse
              (subscriptionData (getPlanDetails (user_bestPlanId user)) (usedCounts engine cm cy fetched)),
            fetch_userOrders (user_email user) w1)"
  using assms by (simp add: GET_def Let_def)

lemma GET_subscription_cases:
  assumes "GET engine now cm cy fetched w = (SubscriptionResponse d, w')"
  shows "\<exists>user :: User. d = subscriptionData (getPlanDetails (user_bestPlanId user))
                      (usedCounts engine cm cy fetched)"
  using assms by (auto simp: GET_def Let_def split: prod.splits option.splits)

lemma getSession_no_fetch:
  "filter isFetch (effects (snd (getSession now w))) = filter isFetch (effects w)"
  by (auto simp: getSession_def store_ops Let_def split: option.splits)

lemma getCurrentUser_no_fetch:
  "filter isFetch (effects (snd (getCurrentUser now w))) = filter isFetch (effects w)"
  using getSession_no_fetch [of now w]
  by (auto simp: getCurrentUser_def split: prod.splits option.splits)

lemma sampleWorld_user:
  assumes "now \<le> expiry" and "sessionId \<noteq> []"
  shows "getCurrentUser now (sampleWorld sessionId planId expiry) =
           (Some \<lparr>user_id = sessionId, user_email = ''ann@example.com'',
                   user_firstName = ''Ann'', user_lastName = ''Lee'',
                   user_activePlans = (case planId of None \<Rightarrow> [] | Some p \<Rightarrow> [p]),
                   user_bestPlanId = planId, user_memberstackId = ''mem_1''\<rparr>,
            (sampleWorld sessionId planId expiry)
              \<lparr>store := [sessionId \<mapsto> (sampleSession sessionId planId expiry)\<lparr>lastAccessed := now\<rparr>],
                effects := [StoreGet sessionId, StoreSet sessionId]\<rparr>)"
  using assms
  by (simp add: getCurrentUser_def getSession_def store_ops sampleWorld_def sampleSession_def Let_def)

lemma usage_subscriptionData:
  "usage (subscriptionData pd used) =
     \<lparr>propertyReportsUsed = fst used,
      propertyReportsLimit = details_propertyReports pd,
      propertyReportsLeft = reportsLeft (details_propertyReports pd) (fst used),
      suburbReportsUsed = snd used,
      suburbReportsLimit = details_suburbReports pd,
      suburbReportsLeft = reportsLeft (details_suburbReports pd) (snd used)\<rparr>"
  by (simp add: subscriptionData_def Let_def)

lemma plan_subscriptionData:
  "plan (subscriptionData pd used) =
     \<lparr>info_id = details_id pd, info_name = details_name pd, info_tier = details_tier pd,
      description = getPlanDescription (details_name pd)\<rparr>"
  by (simp add: subscriptionData_def Let_def)

lemma features_subscriptionData:
  "csvExport (features (subscriptionData pd used)) = tierAtLeast (details_tier pd) 2
   \<and> prioritySupport (features (subscriptionData pd used)) = tierAtLeast (details_tier pd) 3"
  by (simp add: subscriptionData_def Let_def)

lemma reportsLeft_Some:
  "reportsLeft (Some L) U = (if L = - 1 then Num (- 1) else Num (max 0 (L - U)))"
  by (simp add: reportsLeft_def)

lemma reportsLeft_Num: "reportsLeft limit U = Num n \<Longrightarrow> n = - 1 \<or> 0 \<le> n"
  by (auto simp: reportsLeft_def split: option.splits if_splits)

lemmas eval_dates = isDayMonthYear_def dayMonthYear_def digits_def isDigit_def decimal_def
  digitValue_def datedInMonth_def ordersOf_def sampleOrder_def

lemmas eval_plans = getPlanDetails_def in_PLANS_def isCatalogKey_def PLANS_at_def PLANS_def
  objectPrototypeKeys_def

text \<open>
  C5. In every answer of the subscription endpoint that carries subscription data,
  for a plan limit L and the usage count U of the same category: the remaining quota
  is \<open>-1\<close> (unlimited) when \<open>L = -1\<close>, whatever U, and \<open>max 0 (L - U)\<close> otherwise, which
  is never negative. With limit 5 and usage 7 the remaining quota is 0.
\<close>

theorem C5_remaining_quota:
  assumes "GET engine now cm cy fetched w = (SubscriptionResponse d, w')"
  shows "(propertyReportsLimit (usage d) = Some L \<longrightarrow>
            propertyReportsLeft (usage d)
              = (if L = - 1 then Num (- 1)
                 else Num (max 0 (L - propertyReportsUsed (usage d)))))
       \<and> (suburbReportsLimit (usage d) = Some L \<longrightarrow>
            suburbReportsLeft (usage d)
              = (if L = - 1 then Num (- 1)
                 else Num (max 0 (L - suburbReportsUsed (usage d)))))
       \<and> (propertyReportsLeft (usage d) = Num n \<longrightarrow> n = - 1 \<or> 0 \<le> n)
       \<and> (suburbReportsLeft (usage d) = Num n \<longrightarrow> n = - 1 \<or> 0 \<le> n)"
proof -
  from GET_subscription_cases [OF assms] obtain user :: User where
    d: "d = subscriptionData (getPlanDetails (user_bestPlanId user)) (usedCounts engine cm cy fetched)"
    by blast
  have a: "propertyReportsLimit (usage d) = Some L \<Longrightarrow>
            propertyReportsLeft (usage d)
              = (if L = - 1 then Num (- 1)
                 else Num (max 0 (L - propertyReportsUsed (usage d))))"
    unfolding d usage_subscriptionData by (simp add: reportsLeft_Some)
  have b: "suburbReportsLimit (usage d) = Some L \<Longrightarrow>
            suburbReportsLeft (usage d)
              = (if L = - 1 then Num (- 1)
                 else Num (max 0 (L - suburbReportsUsed (usage d))))"
    unfolding d usage_subscriptionData by (simp add: reportsLeft_Some)
  have c: "propertyReportsLeft (usage d) = Num n \<Longrightarrow> n = - 1 \<or> 0 \<le> n"
    unfolding d usage_subscriptionData using reportsLeft_Num by simp
  have e: "suburbReportsLeft (usage d) = Num n \<Longrightarrow> n = - 1 \<or> 0 \<le> n"
    unfolding d usage_subscriptionData using reportsLeft_Num by simp
  from a b c e show ?thesis by blast
qed

theorem C5_remaining_quota_witness:
  "\<exists>d w'. GET (\<lambda>s. None) 1000 0 2025 (ResponseOk (replicate 7 (sampleOrder ''Property'' ''15-01-2025'')))
              (sampleWorld ''s1'' (Some ''pln_essentials-vb1k04zy'') 5000)
            = (SubscriptionResponse d, w')
          \<and> propertyReportsLimit (usage d) = Some 5
          \<and> propertyReportsUsed (usage d) = 7
          \<and> propertyReportsLeft (usage d) = Num 0"
proof -
  let ?orders = "replicate 7 (sampleOrder ''Property'' ''15-01-2025'')"
  let ?d = "subscriptionData (getPlanDetails (Some ''pln_essentials-vb1k04zy''))
              (usedCounts (\<lambda>s. None) 0 2025 (ResponseOk ?orders))"
  have u: "getCurrentUser 1000 (sampleWorld ''s1'' (Some ''pln_essentials-vb1k04zy'') 5000)
             = (Some \<lparr>user_id = ''s1'', user_email = ''ann@example.com'',
                   user_firstName = ''Ann'', user_lastName = ''Lee'',
                   user_activePlans = [''pln_essentials-vb1k04zy''],
                   user_bestPlanId = Some ''pln_essentials-vb1k04zy'',
                   user_memberstackId = ''mem_1''\<rparr>,
            (sampleWorld ''s1'' (Some ''pln_essentials-vb1k04zy'') 5000)
              \<lparr>store := [''s1'' \<mapsto> (sampleSession ''s1'' (Some ''pln_essentials-vb1k04zy'') 5000)
                                      \<lparr>lastAccessed := 1000\<rparr>],
                effects := [StoreGet ''s1'', StoreSet ''s1'']\<rparr>)"
    using sampleWorld_user [of 1000 5000 "''s1''" "Some ''pln_essentials-vb1k04zy''"] by simp
  note g = GET_authenticated [OF u, of "\<lambda>s. None" 0 2025 "ResponseOk ?orders"]
  have dmy: "list_all (\<lambda>order. isDayMonthYear (date order)) ?orders"
    by (simp add: eval_dates list_all_iff)
  have used: "propertyReportsUsed (usage ?d) = 7"
    unfolding usage_subscriptionData usedCounts_ordersOf [OF dmy, of "\<lambda>s. None"]
    by (simp add: eval_dates)
  have lim: "propertyReportsLimit (usage ?d) = Some 5"
    unfolding usage_subscriptionData by (simp add: eval_plans essentialsPlan_def)
  from C5_remaining_quota [OF g, of 5 0] used lim
  have "propertyReportsLeft (usage ?d) = Num 0" by simp
  with g used lim show ?thesis by simp
qed

text \<open>
  C6. For an order whose date is in day-month-year form, wherever it stands in the
  answer of the backend and whatever the other orders are: the usage count of its
  category includes it if and only if the month and the year of its date are those of
  now. With the order the Property count (the Suburb count) is one more than without
  it when the order is a Property (a Suburb) order of the current month and year, and
  is the same otherwise; so an order of an earlier calendar month is left out, however
  close its day is to the turn of the month. The counts are the numbers of the orders
  of the category that pass the test of the loop.
\<close>

theorem C6_current_month_usage:
  assumes "isDayMonthYear (date order)"
    and "GET engine now cm cy (ResponseOk (before @ order # after)) w
           = (SubscriptionResponse d, w')"
    and "GET engine now cm cy (ResponseOk (before @ after)) w
           = (SubscriptionResponse d0, w0)"
  shows "inCurrentMonth engine cm cy order = datedInMonth cm cy order
       \<and> propertyReportsUsed (usage d)
           = propertyReportsUsed (usage d0)
             + (if report_category order = ''Property'' \<and> datedInMonth cm cy order
                then 1 else 0)
       \<and> suburbReportsUsed (usage d)
           = suburbReportsUsed (usage d0)
             + (if report_category order = ''Suburb'' \<and> datedInMonth cm cy order
                then 1 else 0)
       \<and> propertyReportsUsed (usage d)
           = int (length (filter (\<lambda>order. report_category order = ''Property''
                                     \<and> inCurrentMonth engine cm cy order)
                            (before @ order # after)))
       \<and> suburbReportsUsed (usage d)
           = int (length (filter (\<lambda>order. report_category order = ''Suburb''
                                     \<and> inCurrentMonth engine cm cy order)
                            (before @ order # after)))"
proof -
  from GET_subscription_cases [OF assms(2)] obtain user :: User where
    d: "d = subscriptionData (getPlanDetails (user_bestPlanId user))
              (usedCounts engine cm cy (ResponseOk (before @ order # after)))"
    by blast
  from GET_subscription_cases [OF assms(3)] obtain user0 :: User where
    d0: "d0 = subscriptionData (getPlanDetails (user_bestPlanId user0))
              (usedCounts engine cm cy (ResponseOk (before @ after)))"
    by blast
  note t = inCurrentMonth_dayMonthYear [OF assms(1), of engine cm cy]
  have p: "propertyReportsUsed (usage d)
           = int (length (filter (\<lambda>order. report_category order = ''Property''
                                     \<and> inCurrentMonth engine cm cy order)
                            (before @ order # after)))"
    unfolding d usage_subscriptionData usedCounts_filter by simp
  have s: "suburbReportsUsed (usage d)
           = int (length (filter (\<lambda>order. report_category order = ''Suburb''
                                     \<and> inCurrentMonth engine cm cy order)
                            (before @ order # after)))"
    unfolding d usage_subscriptionData usedCounts_filter by simp
  have p0: "propertyReportsUsed (usage d0)
           = int (length (filter (\<lambda>order. report_category order = ''Property''
                                     \<and> inCurrentMonth engine cm cy order)
                            (before @ after)))"
    unfolding d0 usage_subscriptionData usedCounts_filter by simp
  have s0: "suburbReportsUsed (usage d0)
           = int (length (filter (\<lambda>order. report_category order = ''Suburb''
                                     \<and> inCurrentMonth engine cm cy order)
                            (before @ after)))"
    unfolding d0 usage_subscriptionData usedCounts_filter by simp
  have dp: "propertyReportsUsed (usage d)
           = propertyReportsUsed (usage d0)
             + (if report_category order = ''Property'' \<and> datedInMonth cm cy order
                then 1 else 0)"
    unfolding p p0 using t by simp
  have ds: "suburbReportsUsed (usage d)
           = suburbReportsUsed (usage d0)
             + (if report_category order = ''Suburb'' \<and> datedInMonth cm cy order
                then 1 else 0)"
    unfolding s s0 using t by simp
  from t dp ds p s show ?thesis by blast
qed

lemma februaryOrders_dates: "list_all (\<lambda>order. isDayMonthYear (date order)) februaryOrders"
  by (simp add: februaryOrders_def eval_dates)

lemma februaryOrders_counts:
  "length (ordersOf ''Property'' 1 2025 februaryOrders) = 1
   \<and> length (ordersOf ''Suburb'' 1 2025 februaryOrders) = 1"
  by (simp add: februaryOrders_def eval_dates)

lemma advancedWorld_user:
  "getCurrentUser 1000 (sampleWorld ''s1'' (Some ''pln_advanced-ni690fz3'') 5000)
     = (Some \<lparr>user_id = ''s1'', user_email = ''ann@example.com'',
               user_firstName = ''Ann'', user_lastName = ''Lee'',
               user_activePlans = [''pln_advanced-ni690fz3''],
               user_bestPlanId = Some ''pln_advanced-ni690fz3'',
               user_memberstackId = ''mem_1''\<rparr>,
        (sampleWorld ''s1'' (Some ''pln_advanced-ni690fz3'') 5000)
          \<lparr>store := [''s1'' \<mapsto> (sampleSession ''s1'' (Some ''pln_advanced-ni690fz3'') 5000)
                                  \<lparr>lastAccessed := 1000\<rparr>],
            effects := [StoreGet ''s1'', StoreSet ''s1'']\<rparr>)"
  using sampleWorld_user [of 1000 5000 "''s1''" "Some ''pln_advanced-ni690fz3''"] by simp

lemma unreadable_not_counted:
  "\<not> inCurrentMonth engine cm cy (sampleOrder category ''n/a'')"
  by (simp add: inCurrentMonth_def sampleOrder_def Let_def)

theorem C6_current_month_usage_witness:
  "\<exists>d d0 w' w0.
      GET (\<lambda>s. None) 1000 1 2025
          (ResponseOk ([sampleOrder ''Suburb'' ''n/a''] @ sampleOrder ''Property'' ''15-02-2025''
                         # [sampleOrder ''Property'' ''31-01-2025'']))
          (sampleWorld ''s1'' (Some ''pln_advanced-ni690fz3'') 5000)
        = (SubscriptionResponse d, w')
    \<and> GET (\<lambda>s. None) 1000 1 2025
          (ResponseOk ([sampleOrder ''Suburb'' ''n/a''] @ [sampleOrder ''Property'' ''31-01-2025'']))
          (sampleWorld ''s1'' (Some ''pln_advanced-ni690fz3'') 5000)
        = (SubscriptionResponse d0, w0)
    \<and> datedInMonth 1 2025 (sampleOrder ''Property'' ''15-02-2025'')
    \<and> \<not> datedInMonth 1 2025 (sampleOrder ''Property'' ''31-01-2025'')
    \<and> propertyReportsUsed (usage d) = propertyReportsUsed (usage d0) + 1
    \<and> propertyReportsUsed (usage d0) = 0"
proof -
  let ?a = "sampleOrder ''Suburb'' ''n/a''"
  let ?o = "sampleOrder ''Property'' ''15-02-2025''"
  let ?b = "sampleOrder ''Property'' ''31-01-2025''"
  note g = GET_authenticated [OF advancedWorld_user, of "\<lambda>s. None" 1 2025
      "ResponseOk ([?a] @ ?o # [?b])"]
  note g0 = GET_authenticated [OF advancedWorld_user, of "\<lambda>s. None" 1 2025
      "ResponseOk ([?a] @ [?b])"]
  have fo: "isDayMonthYear (date ?o)" and fb: "isDayMonthYear (date ?b)"
    by (simp_all add: eval_dates)
  have yes: "datedInMonth 1 2025 ?o" and no: "\<not> datedInMonth 1 2025 ?b"
    by (simp_all add: eval_dates)
  from no inCurrentMonth_dayMonthYear [OF fb, of "\<lambda>s. None" 1 2025]
  have nb: "\<not> inCurrentMonth (\<lambda>s. None) 1 2025 ?b" by simp
  have z: "propertyReportsUsed
             (usage (subscriptionData (getPlanDetails (Some ''pln_advanced-ni690fz3''))
                       (usedCounts (\<lambda>s. None) 1 2025 (ResponseOk ([?a] @ [?b]))))) = 0"
    unfolding usage_subscriptionData usedCounts_filter
    using nb unreadable_not_counted [of "\<lambda>s. None" 1 2025 "''Suburb''"] by simp
  from C6_current_month_usage [OF fo g g0] yes
  have "propertyReportsUsed
          (usage (subscriptionData (getPlanDetails (Some ''pln_advanced-ni690fz3''))
                    (usedCounts (\<lambda>s. None) 1 2025 (ResponseOk ([?a] @ ?o # [?b])))))
        = propertyReportsUsed
          (usage (subscriptionData (getPlanDetails (Some ''pln_advanced-ni690fz3''))
                    (usedCounts (\<lambda>s. None) 1 2025 (ResponseOk ([?a] @ [?b]))))) + 1"
    by (simp add: sampleOrder_def)
  with g g0 yes no z show ?thesis by simp
qed

text \<open>
  C7. For a session whose best plan id is \<open>pln_advanced-ni690fz3\<close>, and an order
  history, dated in day-month-year form, that has in the current month exactly one
  Property order and exactly one Suburb order, the subscription endpoint answers with
  plan name Advanced, tier 2, one property report used and 29 left, one suburb report
  used and 19 left, CSV export on and priority support off.
\<close>

theorem C7_advanced_scenario:
  assumes "getSession now w = (Some session, w1)"
    and "bestPlanId session = Some ''pln_advanced-ni690fz3''"
    and "list_all (\<lambda>order. isDayMonthYear (date order)) orders"
    and "length (ordersOf ''Property'' cm cy orders) = 1"
    and "length (ordersOf ''Suburb'' cm cy orders) = 1"
  shows "\<exists>d. GET engine now cm cy (ResponseOk orders) w
               = (SubscriptionResponse d, fetch_userOrders (userEmail session) w1)
          \<and> info_name (plan d) = Some ''Advanced''
          \<and> info_tier (plan d) = Some 2
          \<and> propertyReportsUsed (usage d) = 1
          \<and> propertyReportsLeft (usage d) = Num 29
          \<and> suburbReportsUsed (usage d) = 1
          \<and> suburbReportsLeft (usage d) = Num 19
          \<and> csvExport (features d)
          \<and> \<not> prioritySupport (features d)"
proof -
  let ?user = "\<lparr>user_id = sid session, user_email = userEmail session,
                 user_firstName = firstName session, user_lastName = lastName session,
                 user_activePlans = activePlans session, user_bestPlanId = bestPlanId session,
                 user_memberstackId = memberstackId session\<rparr>"
  let ?d = "subscriptionData (CatalogEntry advancedPlan) (1, 1)"
  have u: "getCurrentUser now w = (Some ?user, w1)"
    using assms(1) by (simp add: getCurrentUser_def)
  have p: "getPlanDetails (Some ''pln_advanced-ni690fz3'') = CatalogEntry advancedPlan"
    by (simp add: eval_plans)
  have c: "usedCounts engine cm cy (ResponseOk orders) = (1, 1)"
    using usedCounts_ordersOf [OF assms(3), of engine cm cy] assms(4,5) by simp
  have g: "GET engine now cm cy (ResponseOk orders) w
             = (SubscriptionResponse ?d, fetch_userOrders (userEmail session) w1)"
    using GET_authenticated [OF u, of engine cm cy "ResponseOk orders"] assms(2) p c by simp
  have n: "info_name (plan ?d) = Some ''Advanced'' \<and> info_tier (plan ?d) = Some 2"
    unfolding plan_subscriptionData by (simp add: advancedPlan_def)
  have q: "propertyReportsUsed (usage ?d) = 1 \<and> propertyReportsLeft (usage ?d) = Num 29
         \<and> suburbReportsUsed (usage ?d) = 1 \<and> suburbReportsLeft (usage ?d) = Num 19"
    unfolding usage_subscriptionData by (simp add: advancedPlan_def reportsLeft_def)
  have f: "csvExport (features ?d) \<and> \<not> prioritySupport (features ?d)"
    by (simp add: features_subscriptionData advancedPlan_def tierAtLeast_def)
  from g n q f show ?thesis by blast
qed

theorem C7_advanced_scenario_witness:
  "\<exists>d w'. GET (\<lambda>s. None) 1000 1 2025 (ResponseOk februaryOrders)
              (sampleWorld ''s1'' (Some ''pln_advanced-ni690fz3'') 5000)
            = (SubscriptionResponse d, w')
          \<and> info_name (plan d) = Some ''Advanced''
          \<and> info_tier (plan d) = Some 2
          \<and> propertyReportsLeft (usage d) = Num 29
          \<and> suburbReportsLeft (usage d) = Num 19
          \<and> csvExport (features d)
          \<and> \<not> prioritySupport (features d)"
proof -
  let ?w = "sampleWorld ''s1'' (Some ''pln_advanced-ni690fz3'') 5000"
  have s: "getSession 1000 ?w = (fst (getSession 1000 ?w), snd (getSession 1000 ?w))" by simp
  have v: "fst (getSession 1000 ?w)
             = Some ((sampleSession ''s1'' (Some ''pln_advanced-ni690fz3'') 5000)
                        \<lparr>lastAccessed := 1000\<rparr>)"
    by (simp add: getSession_def store_ops sampleWorld_def sampleSession_def Let_def)
  have b: "bestPlanId ((sampleSession ''s1'' (Some ''pln_advanced-ni690fz3'') 5000)
                        \<lparr>lastAccessed := 1000\<rparr>) = Some ''pln_advanced-ni690fz3''"
    by (simp add: sampleSession_def)
  from C7_advanced_scenario [OF s [unfolded v] b februaryOrders_dates
      conjunct1 [OF februaryOrders_counts] conjunct2 [OF februaryOrders_counts]]
  show ?thesis by blast
qed

text \<open>
  C8. When \<open>getCurrentUser\<close> returns none, the subscription endpoint answers with
  status 401 and the body \<open>{success: false, error: "Not authenticated"}\<close>; it returns
  at once, with no plan looked up and no request for the orders sent to the backend.
\<close>

theorem C8_anonymous_401:
  assumes "fst (getCurrentUser now w) = None"
  shows "fst (GET engine now cm cy fetched w) = ErrorResponse 401 ''Not authenticated''
       \<and> snd (GET engine now cm cy fetched w) = snd (getCurrentUser now w)
       \<and> filter isFetch (effects (snd (GET engine now cm cy fetched w))) = filter isFetch (effects w)"
proof -
  from assms have g: "GET engine now cm cy fetched w
      = (ErrorResponse 401 ''Not authenticated'', snd (getCurrentUser now w))"
    by (cases "getCurrentUser now w") (simp add: GET_def)
  then show ?thesis by (simp add: getCurrentUser_no_fetch)
qed

theorem C8_anonymous_401_witness:
  "fst (getCurrentUser 1000 anonymousWorld) = None
   \<and> GET (\<lambda>s. None) 1000 0 2025 (ResponseOk februaryOrders) anonymousWorld
       = (ErrorResponse 401 ''Not authenticated'', anonymousWorld)
   \<and> fst (getCurrentUser 6000 (sampleWorld ''s1'' None 5000)) = None
   \<and> fst (GET (\<lambda>s. None) 6000 0 2025 (ResponseOk februaryOrders) (sampleWorld ''s1'' None 5000))
       = ErrorResponse 401 ''Not authenticated''
   \<and> effects (snd (GET (\<lambda>s. None) 6000 0 2025 (ResponseOk februaryOrders) (sampleWorld ''s1'' None 5000)))
       = [StoreGet ''s1'', StoreDelete ''s1'', CookieDelete]"
proof -
  have a: "getCurrentUser 1000 anonymousWorld = (None, anonymousWorld)"
    by (simp add: getCurrentUser_def getSession_def anonymousWorld_def)
  have b: "fst (getCurrentUser 6000 (sampleWorld ''s1'' None 5000)) = None"
    by (simp add: getCurrentUser_def getSession_def store_ops sampleWorld_def sampleSession_def
        Let_def)
  have e: "effects (snd (getCurrentUser 6000 (sampleWorld ''s1'' None 5000)))
             = [StoreGet ''s1'', StoreDelete ''s1'', CookieDelete]"
    by (simp add: getCurrentUser_def getSession_def store_ops sampleWorld_def sampleSession_def
        Let_def)
  from a have a': "fst (getCurrentUser 1000 anonymousWorld) = None" by simp
  from C8_anonymous_401 [OF a', of "\<lambda>s. None" 0 2025 "ResponseOk februaryOrders"] a
  have g1: "GET (\<lambda>s. None) 1000 0 2025 (ResponseOk februaryOrders) anonymousWorld
       = (ErrorResponse 401 ''Not authenticated'', anonymousWorld)"
    by (simp add: prod_eq_iff)
  from C8_anonymous_401 [OF b, of "\<lambda>s. None" 0 2025 "ResponseOk februaryOrders"] e
  have g2: "fst (GET (\<lambda>s. None) 6000 0 2025 (ResponseOk februaryOrders) (sampleWorld ''s1'' None 5000))
       = ErrorResponse 401 ''Not authenticated''
   \<and> effects (snd (GET (\<lambda>s. None) 6000 0 2025 (ResponseOk februaryOrders) (sampleWorld ''s1'' None 5000)))
       = [StoreGet ''s1'', StoreDelete ''s1'', CookieDelete]"
    by simp
  from a' b g1 g2 show ?thesis by blast
qed

text \<open>
  Where \<open>getPlanDetails\<close> does fall back to the free tier: for a plan id that the
  \<open>in\<close> test rejects and that has none of the three name fragments.
\<close>

lemma getPlanDetails_default:
  assumes "\<not> in_PLANS p"
    and "\<not> str_includes p ''portfolio''"
    and "\<not> str_includes p ''advanced''"
    and "\<not> str_includes p ''essentials''"
  shows "getPlanDetails (Some p) = CatalogEntry freePlan"
  using assms by (simp add: getPlanDetails_def PLANS_at_basic)

text \<open>
  C10. The plan id \<open>toString\<close> is no key of the catalog and has none of the fragments
  \<open>portfolio\<close>, \<open>advanced\<close>, \<open>essentials\<close>; the resolver passes it through unchanged.
  Yet \<open>getPlanDetails\<close> does not resolve it to the free-tier entry: \<open>planId in PLANS\<close>
  holds for the inherited name, and the value returned is the member of
  \<open>Object.prototype\<close>, with no tier and no quotas.
\<close>

theorem C10_inherited_name_not_free_tier:
  "\<not> isCatalogKey ''toString''
   \<and> \<not> str_includes ''toString'' ''portfolio''
   \<and> \<not> str_includes ''toString'' ''advanced''
   \<and> \<not> str_includes ''toString'' ''essentials''
   \<and> getBestPlanId [''toString''] = Some ''toString''
   \<and> getPlanDetails (Some ''toString'') = PrototypeMember ''toString''
   \<and> getPlanDetails (Some ''toString'') \<noteq> CatalogEntry freePlan
   \<and> details_tier (getPlanDetails (Some ''toString'')) = None
   \<and> details_suburbReports (getPlanDetails (Some ''toString'')) = None
   \<and> details_propertyReports (getPlanDetails (Some ''toString'')) = None"
proof -
  have a: "\<not> isCatalogKey ''toString''" by (simp add: isCatalogKey_def PLANS_def)
  have b: "\<not> str_includes ''toString'' ''portfolio'' \<and> \<not> str_includes ''toString'' ''advanced''
         \<and> \<not> str_includes ''toString'' ''essentials''" by simp
  have n: "noMatch hierarchy [''toString'']"
    by (simp add: noMatch_def someMatch_def hierarchy_def topTier_def lowerTiers_def eval_strings)
  have c: "getBestPlanId [''toString''] = Some ''toString''"
    using resolveFrom_noMatch [OF n] by (simp add: getBestPlanId_def)
  have d: "getPlanDetails (Some ''toString'') = PrototypeMember ''toString''"
    by (simp add: eval_plans)
  from a b c d show ?thesis by simp
qed

end
